theory Spec2Isabelle
  imports Main
begin

section \<open>Data model\<close>

text \<open>
  The program is \<^verbatim>\<open>health_data_importer.py\<close>. A Python string is modelled as a
  \<^typ>\<open>string\<close>, the bytes of its UTF-8 encoding: equality, concatenation and
  \<^verbatim>\<open>startswith\<close> on these bytes are Python's on the code points.
  A source row is the sequence of its positional values, \<^typ>\<open>'v list\<close>, for any type
  \<^typ>\<open>'v\<close> of scalar values compared by equality.
\<close>

text \<open>Exceptions of the program, as values. \<open>StoreError\<close> is any exception raised by
  one of the two database drivers.\<close>

datatype py_exception = IndexError | ValueError | StoreError string

text \<open>The lines written by \<^verbatim>\<open>log\<close>, one constructor for each message of the source,
  carrying the values the message is formatted from.\<close>

datatype 'v event =
    LogSkipping string
  | LogEnsuring string
  | LogErrorCreating string py_exception
  | LogFailedFetch string py_exception
  | LogWarnKeys string py_exception
  | LogRowSkipped nat string nat nat
  | LogSkippedData "'v list"
  | LogInserted nat string
  | LogErrorInserting string py_exception
  | LogSampleRow "'v list"
  | LogNoValidRows string
  | LogRowsSkipped nat string
  | LogNoNewRows string
  | LogAlreadyExisted nat string
  | LogUnhandled string py_exception

text \<open>The operations the program issues against the two stores, recorded in the order
  they are issued.\<close>

datatype 'v db_op =
    SqliteTableInfo string
  | PgExecute string
  | PgCommit
  | SqliteSelectAll string
  | PgSelectKeys string string
  | PgExecuteMany string "'v list list"
  | PgRollback

text \<open>
  The two stores are external: each operation is a function of the stores' state
  \<^typ>\<open>'w\<close> that returns a result or an exception, and the next state.
  \<open>table_info\<close> is \<^verbatim>\<open>PRAGMA table_info\<close> with \<^verbatim>\<open>fetchall\<close>, reduced to the two
  fields the program reads (\<^verbatim>\<open>col[1]\<close>, \<^verbatim>\<open>col[2]\<close>); \<open>select_keys\<close> is the query of
  lines 140-144 with the first field of each fetched row.
  \<open>str_upper\<close> is \<^verbatim>\<open>str.upper\<close> of the Python runtime, which line 90 calls: it follows
  the Unicode case mapping (it changes letters outside ASCII too, and the length of some
  strings), so it is a parameter of the model like the stores' answers, and nothing is
  assumed of it.
\<close>

record ('w, 'v) stores =
  table_info :: "string \<Rightarrow> 'w \<Rightarrow> (py_exception + (string \<times> string option) list) \<times> 'w"
  pg_execute :: "string \<Rightarrow> 'w \<Rightarrow> (py_exception + unit) \<times> 'w"
  pg_commit :: "'w \<Rightarrow> (py_exception + unit) \<times> 'w"
  select_all :: "string \<Rightarrow> 'w \<Rightarrow> (py_exception + 'v list list) \<times> 'w"
  select_keys :: "string \<Rightarrow> string \<Rightarrow> 'w \<Rightarrow> (py_exception + 'v list) \<times> 'w"
  pg_executemany :: "string \<Rightarrow> 'v list list \<Rightarrow> 'w \<Rightarrow> (py_exception + unit) \<times> 'w"
  pg_rollback :: "'w \<Rightarrow> (py_exception + unit) \<times> 'w"
  str_upper :: "string \<Rightarrow> string"

text \<open>The state threaded through a run: the stores, the log written so far and the
  operations issued so far.\<close>

record ('w, 'v) run_state =
  world :: 'w
  logs :: "'v event list"
  trace :: "'v db_op list"

definition log :: "'v event \<Rightarrow> ('w, 'v) run_state \<Rightarrow> ('w, 'v) run_state" where
  "log e s = s\<lparr>logs := logs s @ [e]\<rparr>"

definition run_op ::
  "'v db_op \<Rightarrow> ('w \<Rightarrow> 'r \<times> 'w) \<Rightarrow> ('w, 'v) run_state \<Rightarrow> 'r \<times> ('w, 'v) run_state" where
  "run_op opn f s =
     (case f (world s) of (r, w') \<Rightarrow> (r, s\<lparr>world := w', trace := trace s @ [opn]\<rparr>))"

section \<open>Schema mapper (\<^verbatim>\<open>get_create_table_query\<close>, lines 83-107)\<close>

definition startswith :: "string \<Rightarrow> string \<Rightarrow> bool" where
  "startswith s p = (take (length p) s = p)"

text \<open>Lines 90-101. The declared type \<^verbatim>\<open>col[2]\<close> may be \<^verbatim>\<open>None\<close>, which
  \<^verbatim>\<open>col[2] or ""\<close> turns into the empty string; \<open>up\<close> is \<^verbatim>\<open>str.upper\<close>.\<close>

definition map_type :: "(string \<Rightarrow> string) \<Rightarrow> string option \<Rightarrow> string" where
  "map_type up declared =
     (let col_type = up (case declared of None \<Rightarrow> '''' | Some t \<Rightarrow> t) in
      if col_type = '''' then ''TEXT''
      else if startswith col_type ''INT'' then ''BIGINT''
      else if startswith col_type ''REAL'' then ''DOUBLE PRECISION''
      else if startswith col_type ''BLOB'' then ''BYTEA''
      else ''TEXT'')"

fun join :: "string \<Rightarrow> string list \<Rightarrow> string" where
  "join sep [] = ''''"
| "join sep [x] = x"
| "join sep (x # y # ys) = x @ sep @ join sep (y # ys)"

definition quoted :: "string \<Rightarrow> string" where
  "quoted name = [CHR 0x22] @ name @ [CHR 0x22]"

definition col_def :: "(string \<Rightarrow> string) \<Rightarrow> string \<times> string option \<Rightarrow> string" where
  "col_def up col = quoted (fst col) @ '' '' @ map_type up (snd col)"

definition create_sql ::
  "(string \<Rightarrow> string) \<Rightarrow> string \<Rightarrow> (string \<times> string option) list \<Rightarrow> string" where
  "create_sql up table columns =
     ''CREATE TABLE IF NOT EXISTS '' @ quoted table @ '' ('' @
       join '', '' (map (col_def up) columns) @ '');''"

definition get_create_table_query ::
  "('w, 'v) stores \<Rightarrow> string \<Rightarrow> ('w, 'v) run_state \<Rightarrow>
     (py_exception + string \<times> string list) \<times> ('w, 'v) run_state" where
  "get_create_table_query db table s =
     (case run_op (SqliteTableInfo table) (table_info db table) s of
        (Inl e, s1) \<Rightarrow> (Inl e, s1)
      | (Inr columns, s1) \<Rightarrow> (Inr (create_sql (str_upper db) table columns, map fst columns), s1))"

section \<open>Table synchronizer (\<^verbatim>\<open>sync_table\<close>, lines 110-194)\<close>

text \<open>Lines 115-122, the body of the first \<^verbatim>\<open>try\<close>: any exception in it is returned
  to the handler of line 120.\<close>

definition ensure_table ::
  "('w, 'v) stores \<Rightarrow> string \<Rightarrow> ('w, 'v) run_state \<Rightarrow>
     (py_exception + string list) \<times> ('w, 'v) run_state" where
  "ensure_table db table s =
     (case get_create_table_query db table s of
        (Inl e, s1) \<Rightarrow> (Inl e, s1)
      | (Inr (create_query, column_names), s1) \<Rightarrow>
          (case run_op (PgExecute create_query) (pg_execute db create_query)
                  (log (LogEnsuring table) s1) of
             (Inl e, s2) \<Rightarrow> (Inl e, s2)
           | (Inr u, s2) \<Rightarrow>
               (case run_op PgCommit (pg_commit db) s2 of
                  (Inl e, s3) \<Rightarrow> (Inl e, s3)
                | (Inr u', s3) \<Rightarrow> (Inr column_names, s3))))"

text \<open>Lines 131-135: the first candidate, in the order of the literal list, that is
  among the column names.\<close>

definition dedup_candidates :: "string list" where
  "dedup_candidates = [''row_id'', ''local_date_time'', ''time'']"

fun first_present :: "string list \<Rightarrow> string list \<Rightarrow> string option" where
  "first_present [] column_names = None"
| "first_present (col # cols) column_names =
     (if col \<in> set column_names then Some col else first_present cols column_names)"

definition select_dedup_col :: "string list \<Rightarrow> string option" where
  "select_dedup_col column_names = first_present dedup_candidates column_names"

text \<open>Lines 137-147: the existing keys, the empty set when no column was selected or
  when the query raises.\<close>

definition fetch_existing_keys ::
  "('w, 'v) stores \<Rightarrow> string \<Rightarrow> string option \<Rightarrow> ('w, 'v) run_state \<Rightarrow>
     'v set \<times> ('w, 'v) run_state" where
  "fetch_existing_keys db table dedup_col s =
     (case dedup_col of
        None \<Rightarrow> ({}, s)
      | Some col \<Rightarrow>
          (case run_op (PgSelectKeys col table) (select_keys db col table) s of
             (Inr keys, s1) \<Rightarrow> (set keys, s1)
           | (Inl e, s1) \<Rightarrow> ({}, log (LogWarnKeys table e) s1)))"

text \<open>\<^verbatim>\<open>list.index\<close> raises \<^verbatim>\<open>ValueError\<close> when the value is absent; \<^verbatim>\<open>row[idx]\<close>
  raises \<^verbatim>\<open>IndexError\<close> when the row has no position \<open>idx\<close>.\<close>

fun index_of :: "'a list \<Rightarrow> 'a \<Rightarrow> py_exception + nat" where
  "index_of [] x = Inl ValueError"
| "index_of (y # ys) x =
     (if y = x then Inr 0
      else (case index_of ys x of Inl e \<Rightarrow> Inl e | Inr i \<Rightarrow> Inr (Suc i)))"

definition getitem :: "'a list \<Rightarrow> nat \<Rightarrow> py_exception + 'a" where
  "getitem row idx = (if idx < length row then Inr (row ! idx) else Inl IndexError)"

text \<open>Lines 149-158, the loop over the fetched rows with its two accumulators. It is
  outside every \<^verbatim>\<open>try\<close> of \<^verbatim>\<open>sync_table\<close>, so an exception leaves the function.\<close>

fun partition_rows ::
  "string option \<Rightarrow> string list \<Rightarrow> 'v set \<Rightarrow> 'v list list \<Rightarrow> 'v list list \<Rightarrow> nat \<Rightarrow>
     py_exception + 'v list list \<times> nat" where
  "partition_rows dedup_col column_names existing_keys [] new_rows already_present =
     Inr (new_rows, already_present)"
| "partition_rows dedup_col column_names existing_keys (row # rows) new_rows already_present =
     (case dedup_col of
        None \<Rightarrow>
          partition_rows dedup_col column_names existing_keys rows (new_rows @ [row])
            already_present
      | Some col \<Rightarrow>
          (case index_of column_names col of
             Inl e \<Rightarrow> Inl e
           | Inr idx \<Rightarrow>
               (case getitem row idx of
                  Inl e \<Rightarrow> Inl e
                | Inr v \<Rightarrow>
                    if v \<in> existing_keys
                    then partition_rows dedup_col column_names existing_keys rows new_rows
                           (already_present + 1)
                    else partition_rows dedup_col column_names existing_keys rows
                           (new_rows @ [row]) already_present)))"

text \<open>Lines 165-174, the loop over \<^verbatim>\<open>enumerate(new_rows)\<close>; \<open>n\<close> is
  \<^verbatim>\<open>len(column_names)\<close> and \<open>i\<close> the running index.\<close>

fun validate_rows ::
  "string \<Rightarrow> nat \<Rightarrow> nat \<Rightarrow> 'v list list \<Rightarrow> 'v list list \<Rightarrow> nat \<Rightarrow> ('w, 'v) run_state \<Rightarrow>
     ('v list list \<times> nat) \<times> ('w, 'v) run_state" where
  "validate_rows table n i [] valid_rows skipped_rows s = ((valid_rows, skipped_rows), s)"
| "validate_rows table n i (row # rows) valid_rows skipped_rows s =
     (if length row < n
      then validate_rows table n (i + 1) rows valid_rows (skipped_rows + 1)
             (log (LogSkippedData row) (log (LogRowSkipped i table n (length row)) s))
      else validate_rows table n (i + 1) rows (valid_rows @ [take n row]) skipped_rows s)"

definition insert_query :: "string \<Rightarrow> string list \<Rightarrow> string" where
  "insert_query table column_names =
     ''INSERT INTO '' @ quoted table @ '' ('' @ join '', '' (map quoted column_names) @
       '') VALUES ('' @ join '', '' (replicate (length column_names) ''%s'') @ '')''"

text \<open>Lines 181-185, the handler of a failed insert: an exception of the rollback
  itself leaves \<^verbatim>\<open>sync_table\<close>.\<close>

definition insert_failed ::
  "('w, 'v) stores \<Rightarrow> string \<Rightarrow> 'v list list \<Rightarrow> py_exception \<Rightarrow> ('w, 'v) run_state \<Rightarrow>
     (py_exception + unit) \<times> ('w, 'v) run_state" where
  "insert_failed db table valid_rows e s =
     (case run_op PgRollback (pg_rollback db) s of
        (Inl e', s1) \<Rightarrow> (Inl e', s1)
      | (Inr u, s1) \<Rightarrow>
          (Inr (),
           (case valid_rows of
              [] \<Rightarrow> log (LogErrorInserting table e) s1
            | r # rs \<Rightarrow> log (LogSampleRow r) (log (LogErrorInserting table e) s1))))"

text \<open>Lines 176-187.\<close>

definition insert_valid_rows ::
  "('w, 'v) stores \<Rightarrow> string \<Rightarrow> string list \<Rightarrow> 'v list list \<Rightarrow> ('w, 'v) run_state \<Rightarrow>
     (py_exception + unit) \<times> ('w, 'v) run_state" where
  "insert_valid_rows db table column_names valid_rows s =
     (if valid_rows \<noteq> []
      then
        (case run_op (PgExecuteMany (insert_query table column_names) valid_rows)
                (pg_executemany db (insert_query table column_names) valid_rows) s of
           (Inl e, s1) \<Rightarrow> insert_failed db table valid_rows e s1
         | (Inr u, s1) \<Rightarrow>
             (case run_op PgCommit (pg_commit db) s1 of
                (Inl e, s2) \<Rightarrow> insert_failed db table valid_rows e s2
              | (Inr u', s2) \<Rightarrow> (Inr (), log (LogInserted (length valid_rows) table) s2)))
      else (Inr (), log (LogNoValidRows table) s))"

text \<open>Lines 160-192.\<close>

definition insert_new_rows ::
  "('w, 'v) stores \<Rightarrow> string \<Rightarrow> string list \<Rightarrow> 'v list list \<Rightarrow> ('w, 'v) run_state \<Rightarrow>
     (py_exception + unit) \<times> ('w, 'v) run_state" where
  "insert_new_rows db table column_names new_rows s =
     (if new_rows \<noteq> []
      then
        (case validate_rows table (length column_names) 0 new_rows [] 0 s of
           ((valid_rows, skipped_rows), s1) \<Rightarrow>
             (case insert_valid_rows db table column_names valid_rows s1 of
                (Inl e, s2) \<Rightarrow> (Inl e, s2)
              | (Inr u, s2) \<Rightarrow>
                  (Inr (),
                   if skipped_rows \<noteq> 0 then log (LogRowsSkipped skipped_rows table) s2
                   else s2)))
      else (Inr (), log (LogNoNewRows table) s))"

text \<open>Lines 149-194: what \<^verbatim>\<open>sync_table\<close> does once the column names, the rows, the
  dedup column and the existing keys are known.\<close>

definition finish_sync ::
  "('w, 'v) stores \<Rightarrow> string \<Rightarrow> string list \<Rightarrow> 'v list list \<Rightarrow> string option \<Rightarrow> 'v set \<Rightarrow>
     ('w, 'v) run_state \<Rightarrow> (py_exception + unit) \<times> ('w, 'v) run_state" where
  "finish_sync db table column_names rows dedup_col existing_keys s =
     (case partition_rows dedup_col column_names existing_keys rows [] 0 of
        Inl e \<Rightarrow> (Inl e, s)
      | Inr (new_rows, already_present) \<Rightarrow>
          (case insert_new_rows db table column_names new_rows s of
             (Inl e, s1) \<Rightarrow> (Inl e, s1)
           | (Inr u, s1) \<Rightarrow> (Inr (), log (LogAlreadyExisted already_present table) s1)))"

text \<open>Lines 131-194: the synchronisation of the fetched rows.\<close>

definition sync_rows ::
  "('w, 'v) stores \<Rightarrow> string \<Rightarrow> string list \<Rightarrow> 'v list list \<Rightarrow> ('w, 'v) run_state \<Rightarrow>
     (py_exception + unit) \<times> ('w, 'v) run_state" where
  "sync_rows db table column_names rows s =
     (case fetch_existing_keys db table (select_dedup_col column_names) s of
        (existing_keys, s1) \<Rightarrow>
          finish_sync db table column_names rows (select_dedup_col column_names)
            existing_keys s1)"

text \<open>The whole function. Its result is \<open>Inl e\<close> when exception \<open>e\<close> leaves it and
  \<open>Inr ()\<close> when it returns.\<close>

definition sync_table ::
  "('w, 'v) stores \<Rightarrow> string \<Rightarrow> string set \<Rightarrow> ('w, 'v) run_state \<Rightarrow>
     (py_exception + unit) \<times> ('w, 'v) run_state" where
  "sync_table db table tables_to_import s =
     (if table \<notin> tables_to_import then (Inr (), log (LogSkipping table) s)
      else
        (case ensure_table db table s of
           (Inl e, s1) \<Rightarrow> (Inr (), log (LogErrorCreating table e) s1)
         | (Inr column_names, s1) \<Rightarrow>
             (case run_op (SqliteSelectAll table) (select_all db table) s1 of
                (Inl e, s2) \<Rightarrow> (Inr (), log (LogFailedFetch table e) s2)
              | (Inr rows, s2) \<Rightarrow> sync_rows db table column_names rows s2)))"

section \<open>Sync driver (the loop of \<^verbatim>\<open>main\<close>, lines 223-227)\<close>

definition main_loop_body ::
  "('w, 'v) stores \<Rightarrow> string set \<Rightarrow> string \<Rightarrow> ('w, 'v) run_state \<Rightarrow> ('w, 'v) run_state" where
  "main_loop_body db tables_to_import table s =
     (case sync_table db table tables_to_import s of
        (Inl e, s1) \<Rightarrow> log (LogUnhandled table e) s1
      | (Inr u, s1) \<Rightarrow> s1)"

fun main_loop ::
  "('w, 'v) stores \<Rightarrow> string set \<Rightarrow> string list \<Rightarrow> ('w, 'v) run_state \<Rightarrow> ('w, 'v) run_state" where
  "main_loop db tables_to_import [] s = s"
| "main_loop db tables_to_import (table # tables) s =
     main_loop db tables_to_import tables (main_loop_body db tables_to_import table s)"

section \<open>Uppercasing of ASCII strings, for the examples\<close>

text \<open>On a string of ASCII characters \<^verbatim>\<open>str.upper\<close> changes the letters a to z and nothing
  else. The examples run the program with this function for \<open>str_upper\<close>.\<close>

definition ascii_upper_char :: "char \<Rightarrow> char" where
  "ascii_upper_char c =
     (case map_of (zip ''abcdefghijklmnopqrstuvwxyz'' ''ABCDEFGHIJKLMNOPQRSTUVWXYZ'') c of
        Some u \<Rightarrow> u
      | None \<Rightarrow> c)"

definition ascii_upper :: "string \<Rightarrow> string" where
  "ascii_upper s = map ascii_upper_char s"

section \<open>Auxiliary definitions for the statements\<close>

text \<open>The lines the loop of lines 168-174 logs for the rows from index \<open>i\<close> on.\<close>

fun skip_events :: "string \<Rightarrow> nat \<Rightarrow> nat \<Rightarrow> 'v list list \<Rightarrow> 'v event list" where
  "skip_events table n i [] = []"
| "skip_events table n i (row # rows) =
     (if length row < n then [LogRowSkipped i table n (length row), LogSkippedData row] else []) @
     skip_events table n (i + 1) rows"



text \<open>A state with earlier log lines and earlier operations put in front of its own.\<close>

definition prepend ::
  "'v event list \<Rightarrow> 'v db_op list \<Rightarrow> ('w, 'v) run_state \<Rightarrow> ('w, 'v) run_state" where
  "prepend l tr s = s\<lparr>logs := l @ logs s, trace := tr @ trace s\<rparr>"

definition carried ::
  "'v event list \<Rightarrow> 'v db_op list \<Rightarrow> 'r \<times> ('w, 'v) run_state \<Rightarrow> 'r \<times> ('w, 'v) run_state" where
  "carried l tr p = (fst p, prepend l tr (snd p))"

text \<open>Stores for the examples: the source answers with the given columns and rows, the
  destination answers the existing-key query with the given result, and every other
  operation succeeds.\<close>

definition demo_stores ::
  "(string \<times> string option) list \<Rightarrow> int list list \<Rightarrow> py_exception + int list \<Rightarrow> (unit, int) stores" where
  "demo_stores columns rows keys =
     \<lparr>table_info = (\<lambda>table w. (Inr columns, w)),
      pg_execute = (\<lambda>query w. (Inr (), w)),
      pg_commit = (\<lambda>w. (Inr (), w)),
      select_all = (\<lambda>table w. (Inr rows, w)),
      select_keys = (\<lambda>col table w. (keys, w)),
      pg_executemany = (\<lambda>query vs w. (Inr (), w)),
      pg_rollback = (\<lambda>w. (Inr (), w)),
      str_upper = ascii_upper\<rparr>"

definition init_state :: "(unit, int) run_state" where
  "init_state = \<lparr>world = (), logs = [], trace = []\<rparr>"

text \<open>A destination that answers as PostgreSQL does inside one transaction: after a
  failed statement (the state \<open>True\<close>) it rejects every statement until a commit or a
  rollback. The source has the tables \<open>a\<close> and \<open>b\<close>, each with one row; the destination
  rejects the creation of the table for \<open>a\<close>, whose column has the name of a system
  column.\<close>

definition creates_table :: "string \<Rightarrow> string \<Rightarrow> bool" where
  "creates_table table query =
     startswith query (''CREATE TABLE IF NOT EXISTS '' @ quoted table @ '' ('')"

definition pg_like_stores :: "(bool, int) stores" where
  "pg_like_stores =
     \<lparr>table_info = (\<lambda>table w.
        (Inr (if table = ''a'' then [(''xmin'', Some ''INTEGER'')]
              else [(''row_id'', Some ''INTEGER'')]), w)),
      pg_execute = (\<lambda>query w.
        if w then (Inl (StoreError ''current transaction is aborted''), w)
        else if creates_table ''a'' query
        then (Inl (StoreError ''column name xmin conflicts with a system column name''), True)
        else (Inr (), w)),
      pg_commit = (\<lambda>w. (Inr (), False)),
      select_all = (\<lambda>table w. (Inr [[1]], w)),
      select_keys = (\<lambda>col table w.
        if w then (Inl (StoreError ''current transaction is aborted''), w) else (Inr [], w)),
      pg_executemany = (\<lambda>query vs w.
        if w then (Inl (StoreError ''current transaction is aborted''), w) else (Inr (), w)),
      pg_rollback = (\<lambda>w. (Inr (), False)),
      str_upper = ascii_upper\<rparr>"

definition pg_like_init :: "(bool, int) run_state" where
  "pg_like_init = \<lparr>world = False, logs = [], trace = []\<rparr>"

section \<open>Schema mapper: the type mapping\<close>

text \<open>
  Claim C3. The mapping of a declared type is a function of the declared type alone,
  for every behaviour of \<^verbatim>\<open>str.upper\<close>. With \<open>up t\<close> the declared type uppercased: when
  it is the empty string the destination type is \<open>TEXT\<close>, when it starts with \<open>INT\<close> it
  is \<open>BIGINT\<close>, with \<open>REAL\<close> it is \<open>DOUBLE PRECISION\<close> (the destination's 64-bit floating
  point type), with \<open>BLOB\<close> it is \<open>BYTEA\<close> (the destination's binary type), and in every
  other case it is \<open>TEXT\<close>: so for \<open>TEXT\<close>, \<open>VARCHAR(20)\<close> and \<open>NUMERIC\<close>, while
  \<open>INTEGER\<close> gives \<open>BIGINT\<close>. A missing declared type is treated as the empty one.
\<close>

theorem map_type_rule:
  "(up t = '''' \<longrightarrow> map_type up (Some t) = ''TEXT'') \<and>
   (startswith (up t) ''INT'' \<longrightarrow> map_type up (Some t) = ''BIGINT'') \<and>
   (startswith (up t) ''REAL'' \<longrightarrow> map_type up (Some t) = ''DOUBLE PRECISION'') \<and>
   (startswith (up t) ''BLOB'' \<longrightarrow> map_type up (Some t) = ''BYTEA'') \<and>
   (up t \<noteq> '''' \<and> \<not> startswith (up t) ''INT'' \<and> \<not> startswith (up t) ''REAL'' \<and>
      \<not> startswith (up t) ''BLOB'' \<longrightarrow> map_type up (Some t) = ''TEXT'') \<and>
   (up t = ''TEXT'' \<longrightarrow> map_type up (Some t) = ''TEXT'') \<and>
   (up t = ''VARCHAR(20)'' \<longrightarrow> map_type up (Some t) = ''TEXT'') \<and>
   (up t = ''NUMERIC'' \<longrightarrow> map_type up (Some t) = ''TEXT'') \<and>
   (up t = ''INTEGER'' \<longrightarrow> map_type up (Some t) = ''BIGINT'') \<and>
   (up t = ''REAL'' \<longrightarrow> map_type up (Some t) = ''DOUBLE PRECISION'') \<and>
   (up t = ''BLOB'' \<longrightarrow> map_type up (Some t) = ''BYTEA'') \<and>
   map_type up None = map_type up (Some '''')"
proof -
  have int: "startswith u ''INT'' \<Longrightarrow> u \<noteq> []" for u
    by (auto simp: startswith_def)
  have real: "startswith u ''REAL'' \<Longrightarrow> u \<noteq> [] \<and> \<not> startswith u ''INT''" for u
    by (cases u) (auto simp: startswith_def)
  have blob: "startswith u ''BLOB'' \<Longrightarrow>
      u \<noteq> [] \<and> \<not> startswith u ''INT'' \<and> \<not> startswith u ''REAL''" for u
    by (cases u) (auto simp: startswith_def)
  have general: "up t = '''' \<longrightarrow> map_type up (Some t) = ''TEXT''"
    "startswith (up t) ''INT'' \<longrightarrow> map_type up (Some t) = ''BIGINT''"
    "startswith (up t) ''REAL'' \<longrightarrow> map_type up (Some t) = ''DOUBLE PRECISION''"
    "startswith (up t) ''BLOB'' \<longrightarrow> map_type up (Some t) = ''BYTEA''"
    "up t \<noteq> '''' \<and> \<not> startswith (up t) ''INT'' \<and> \<not> startswith (up t) ''REAL'' \<and>
      \<not> startswith (up t) ''BLOB'' \<longrightarrow> map_type up (Some t) = ''TEXT''"
    using int [of "up t"] real [of "up t"] blob [of "up t"]
    by (auto simp: map_type_def Let_def)
  have examples: "up t = ''TEXT'' \<longrightarrow> map_type up (Some t) = ''TEXT''"
    "up t = ''VARCHAR(20)'' \<longrightarrow> map_type up (Some t) = ''TEXT''"
    "up t = ''NUMERIC'' \<longrightarrow> map_type up (Some t) = ''TEXT''"
    "up t = ''INTEGER'' \<longrightarrow> map_type up (Some t) = ''BIGINT''"
    "up t = ''REAL'' \<longrightarrow> map_type up (Some t) = ''DOUBLE PRECISION''"
    "up t = ''BLOB'' \<longrightarrow> map_type up (Some t) = ''BYTEA''"
    by (simp_all add: map_type_def startswith_def)
  have none: "map_type up None = map_type up (Some '''')"
    by (simp add: map_type_def)
  from general examples none show ?thesis by (intro conjI)
qed

theorem map_type_rule_witness:
  "ascii_upper '''' = '''' \<and> map_type ascii_upper (Some '''') = ''TEXT'' \<and>
   startswith (ascii_upper ''integer'') ''INT'' \<and>
   map_type ascii_upper (Some ''integer'') = ''BIGINT'' \<and>
   startswith (ascii_upper ''Real(8)'') ''REAL'' \<and>
   map_type ascii_upper (Some ''Real(8)'') = ''DOUBLE PRECISION'' \<and>
   startswith (ascii_upper ''blob'') ''BLOB'' \<and>
   map_type ascii_upper (Some ''blob'') = ''BYTEA'' \<and>
   ascii_upper ''date'' \<noteq> '''' \<and> \<not> startswith (ascii_upper ''date'') ''INT'' \<and>
   \<not> startswith (ascii_upper ''date'') ''REAL'' \<and> \<not> startswith (ascii_upper ''date'') ''BLOB'' \<and>
   map_type ascii_upper (Some ''date'') = ''TEXT'' \<and>
   ascii_upper ''Text'' = ''TEXT'' \<and> map_type ascii_upper (Some ''Text'') = ''TEXT'' \<and>
   ascii_upper ''varchar(20)'' = ''VARCHAR(20)'' \<and>
   map_type ascii_upper (Some ''varchar(20)'') = ''TEXT'' \<and>
   ascii_upper ''NUMERIC'' = ''NUMERIC'' \<and> map_type ascii_upper (Some ''NUMERIC'') = ''TEXT'' \<and>
   ascii_upper ''INTEGER'' = ''INTEGER'' \<and> map_type ascii_upper (Some ''INTEGER'') = ''BIGINT'' \<and>
   ascii_upper ''REAL'' = ''REAL'' \<and>
   map_type ascii_upper (Some ''REAL'') = ''DOUBLE PRECISION'' \<and>
   ascii_upper ''BLOB'' = ''BLOB'' \<and> map_type ascii_upper (Some ''BLOB'') = ''BYTEA''"
proof -
  note ev = ascii_upper_def ascii_upper_char_def startswith_def
  note r = map_type_rule [where up = ascii_upper]
  have a: "ascii_upper '''' = ''''" by (simp add: ev)
  have b: "startswith (ascii_upper ''integer'') ''INT''" by (simp add: ev)
  have c: "startswith (ascii_upper ''Real(8)'') ''REAL''" by (simp add: ev)
  have d: "startswith (ascii_upper ''blob'') ''BLOB''" by (simp add: ev)
  have e: "ascii_upper ''date'' \<noteq> '''' \<and> \<not> startswith (ascii_upper ''date'') ''INT'' \<and>
      \<not> startswith (ascii_upper ''date'') ''REAL'' \<and> \<not> startswith (ascii_upper ''date'') ''BLOB''"
    by (simp add: ev)
  have f: "ascii_upper ''Text'' = ''TEXT''" by (simp add: ev)
  have g: "ascii_upper ''varchar(20)'' = ''VARCHAR(20)''" by (simp add: ev)
  have h: "ascii_upper ''NUMERIC'' = ''NUMERIC''" by (simp add: ev)
  have i: "ascii_upper ''INTEGER'' = ''INTEGER''" by (simp add: ev)
  have j: "ascii_upper ''REAL'' = ''REAL''" by (simp add: ev)
  have k: "ascii_upper ''BLOB'' = ''BLOB''" by (simp add: ev)
  note c2 = conjunct2
  have 1: "map_type ascii_upper (Some '''') = ''TEXT''"
    by (rule r [THEN conjunct1, THEN mp, OF a])
  have 2: "map_type ascii_upper (Some ''integer'') = ''BIGINT''"
    by (rule r [THEN c2, THEN conjunct1, THEN mp, OF b])
  have 3: "map_type ascii_upper (Some ''Real(8)'') = ''DOUBLE PRECISION''"
    by (rule r [THEN c2, THEN c2, THEN conjunct1, THEN mp, OF c])
  have 4: "map_type ascii_upper (Some ''blob'') = ''BYTEA''"
    by (rule r [THEN c2, THEN c2, THEN c2, THEN conjunct1, THEN mp, OF d])
  have 5: "map_type ascii_upper (Some ''date'') = ''TEXT''"
    by (rule r [THEN c2, THEN c2, THEN c2, THEN c2, THEN conjunct1, THEN mp, OF e])
  have 6: "map_type ascii_upper (Some ''Text'') = ''TEXT''"
    by (rule r [THEN c2, THEN c2, THEN c2, THEN c2, THEN c2, THEN conjunct1, THEN mp, OF f])
  have 7: "map_type ascii_upper (Some ''varchar(20)'') = ''TEXT''"
    by (rule r [THEN c2, THEN c2, THEN c2, THEN c2, THEN c2, THEN c2, THEN conjunct1,
          THEN mp, OF g])
  have 8: "map_type ascii_upper (Some ''NUMERIC'') = ''TEXT''"
    by (rule r [THEN c2, THEN c2, THEN c2, THEN c2, THEN c2, THEN c2, THEN c2, THEN conjunct1,
          THEN mp, OF h])
  have 9: "map_type ascii_upper (Some ''INTEGER'') = ''BIGINT''"
    by (rule r [THEN c2, THEN c2, THEN c2, THEN c2, THEN c2, THEN c2, THEN c2, THEN c2,
          THEN conjunct1, THEN mp, OF i])
  have 10: "map_type ascii_upper (Some ''REAL'') = ''DOUBLE PRECISION''"
    by (rule r [THEN c2, THEN c2, THEN c2, THEN c2, THEN c2, THEN c2, THEN c2, THEN c2,
          THEN c2, THEN conjunct1, THEN mp, OF j])
  have 11: "map_type ascii_upper (Some ''BLOB'') = ''BYTEA''"
    by (rule r [THEN c2, THEN c2, THEN c2, THEN c2, THEN c2, THEN c2, THEN c2, THEN c2,
          THEN c2, THEN c2, THEN conjunct1, THEN mp, OF k])
  show ?thesis
    by (intro conjI a b c d f g h i j k 1 2 3 4 5 6 7 8 9 10 11 e [THEN conjunct1]
          e [THEN c2, THEN conjunct1] e [THEN c2, THEN c2, THEN conjunct1]
          e [THEN c2, THEN c2, THEN c2])
qed

section \<open>Dedup key selector\<close>

text \<open>
  Claim C4. The dedup key selector returns the first name of the fixed list \<open>row_id\<close>,
  \<open>local_date_time\<close>, \<open>time\<close> that is among the column names. So \<open>row_id\<close> is
  chosen whenever it is present, also beside a timestamp column, and the result is
  \<open>None\<close>, a value and not an exception, when none of the three is present.
\<close>

theorem select_dedup_col_priority:
  "select_dedup_col column_names =
     find (\<lambda>col. col \<in> set column_names) [''row_id'', ''local_date_time'', ''time''] \<and>
   (''row_id'' \<in> set column_names \<longrightarrow> select_dedup_col column_names = Some ''row_id'') \<and>
   (''row_id'' \<notin> set column_names \<and> ''local_date_time'' \<in> set column_names \<longrightarrow>
      select_dedup_col column_names = Some ''local_date_time'') \<and>
   (''row_id'' \<notin> set column_names \<and> ''local_date_time'' \<notin> set column_names \<and>
    ''time'' \<in> set column_names \<longrightarrow> select_dedup_col column_names = Some ''time'') \<and>
   (''row_id'' \<notin> set column_names \<and> ''local_date_time'' \<notin> set column_names \<and>
    ''time'' \<notin> set column_names \<longrightarrow> select_dedup_col column_names = None)"
  by (simp add: select_dedup_col_def dedup_candidates_def)

theorem select_dedup_col_priority_witness:
  "''row_id'' \<in> set [''time'', ''value'', ''row_id''] \<and>
   select_dedup_col [''time'', ''value'', ''row_id''] = Some ''row_id'' \<and>
   ''row_id'' \<notin> set [''time'', ''local_date_time''] \<and>
   ''local_date_time'' \<in> set [''time'', ''local_date_time''] \<and>
   select_dedup_col [''time'', ''local_date_time''] = Some ''local_date_time'' \<and>
   ''row_id'' \<notin> set [''value'', ''time''] \<and> ''local_date_time'' \<notin> set [''value'', ''time''] \<and>
   ''time'' \<in> set [''value'', ''time''] \<and>
   select_dedup_col [''value'', ''time''] = Some ''time'' \<and>
   ''row_id'' \<notin> set [''value''] \<and> ''local_date_time'' \<notin> set [''value''] \<and>
   ''time'' \<notin> set [''value''] \<and>
   select_dedup_col [''value''] = None"
proof -
  note r = select_dedup_col_priority
  have a: "''row_id'' \<in> set [''time'', ''value'', ''row_id'']" by simp
  have b: "''row_id'' \<notin> set [''time'', ''local_date_time''] \<and>
      ''local_date_time'' \<in> set [''time'', ''local_date_time'']" by simp
  have c: "''row_id'' \<notin> set [''value'', ''time''] \<and> ''local_date_time'' \<notin> set [''value'', ''time''] \<and>
      ''time'' \<in> set [''value'', ''time'']" by simp
  have d: "''row_id'' \<notin> set [''value''] \<and> ''local_date_time'' \<notin> set [''value''] \<and>
      ''time'' \<notin> set [''value'']" by simp
  have 1: "select_dedup_col [''time'', ''value'', ''row_id''] = Some ''row_id''"
    by (rule r [THEN conjunct2, THEN conjunct1, THEN mp, OF a])
  have 2: "select_dedup_col [''time'', ''local_date_time''] = Some ''local_date_time''"
    by (rule r [THEN conjunct2, THEN conjunct2, THEN conjunct1, THEN mp, OF b])
  have 3: "select_dedup_col [''value'', ''time''] = Some ''time''"
    by (rule r [THEN conjunct2, THEN conjunct2, THEN conjunct2, THEN conjunct1, THEN mp, OF c])
  have 4: "select_dedup_col [''value''] = None"
    by (rule r [THEN conjunct2, THEN conjunct2, THEN conjunct2, THEN conjunct2, THEN mp, OF d])
  from 1 2 3 4 show ?thesis by simp
qed

lemma first_present_in: "first_present cols column_names = Some col \<Longrightarrow> col \<in> set column_names"
  by (induction cols) (auto split: if_splits)

lemma index_of_present:
  "col \<in> set column_names \<Longrightarrow>
     \<exists>idx. index_of column_names col = Inr idx \<and> idx < length column_names \<and> column_names ! idx = col"
  by (induction column_names) auto


lemma select_dedup_col_index:
  "select_dedup_col column_names = Some col \<Longrightarrow>
     \<exists>idx. index_of column_names col = Inr idx \<and> idx < length column_names \<and> column_names ! idx = col"
  unfolding select_dedup_col_def by (rule index_of_present) (rule first_present_in)

section \<open>Partition into new and already present rows\<close>

lemma partition_rows_keyed:
  "index_of column_names col = Inr idx \<Longrightarrow> \<forall>row\<in>set rows. idx < length row \<Longrightarrow>
   partition_rows (Some col) column_names existing_keys rows new_rows already_present =
     Inr (new_rows @ filter (\<lambda>row. row ! idx \<notin> existing_keys) rows,
          already_present + length (filter (\<lambda>row. row ! idx \<in> existing_keys) rows))"
  by (induction rows arbitrary: new_rows already_present) (auto simp: getitem_def)

lemma partition_rows_unkeyed:
  "partition_rows None column_names existing_keys rows new_rows already_present =
     Inr (new_rows @ rows, already_present)"
  by (induction rows arbitrary: new_rows already_present) auto

text \<open>
  Claim C2. The selected dedup column has a position \<open>idx\<close> among the column names.
  When every fetched row holds a value at \<open>idx\<close>, the loop of lines 152-158 returns
  normally: the rows whose value at \<open>idx\<close> is among the existing keys are counted as
  already present and left out, and the others are the new rows, in source order. With no
  dedup column every row is new, whatever the existing keys, and the loop returns
  normally.
\<close>

theorem partition_rows_classifies:
  "(select_dedup_col column_names = Some col \<longrightarrow>
      (\<exists>idx<length column_names. index_of column_names col = Inr idx \<and> column_names ! idx = col)) \<and>
   (index_of column_names col = Inr idx \<and> (\<forall>row\<in>set rows. idx < length row) \<longrightarrow>
      partition_rows (Some col) column_names existing_keys rows [] 0 =
        Inr (filter (\<lambda>row. row ! idx \<notin> existing_keys) rows,
             length (filter (\<lambda>row. row ! idx \<in> existing_keys) rows))) \<and>
   partition_rows None column_names existing_keys rows [] 0 = Inr (rows, 0)"
  using select_dedup_col_index [of column_names col]
    partition_rows_keyed [of column_names col idx rows existing_keys "[]" 0]
    partition_rows_unkeyed [of column_names existing_keys rows "[]" 0]
  by auto

theorem partition_rows_classifies_witness:
  "select_dedup_col [''value'', ''row_id''] = Some ''row_id'' \<and>
   index_of [''value'', ''row_id''] ''row_id'' = Inr 1 \<and>
   list_all (\<lambda>row. 1 < length row) [[1, 10], [2, 11], [3, 10 :: int]] \<and>
   partition_rows (Some ''row_id'') [''value'', ''row_id''] {10} [[1, 10], [2, 11], [3, 10 :: int]] [] 0 =
     Inr ([[2, 11]], 2)"
proof -
  have a: "select_dedup_col [''value'', ''row_id''] = Some ''row_id''"
    by (simp add: select_dedup_col_def dedup_candidates_def)
  have b: "index_of [''value'', ''row_id''] ''row_id'' = Inr 1 \<and>
      (\<forall>row\<in>set [[1, 10], [2, 11], [3, 10 :: int]]. 1 < length row)"
    by simp
  have "partition_rows (Some ''row_id'') [''value'', ''row_id''] {10} [[1, 10], [2, 11], [3, 10 :: int]] [] 0 =
     Inr (filter (\<lambda>row. row ! 1 \<notin> {10}) [[1, 10], [2, 11], [3, 10 :: int]],
          length (filter (\<lambda>row. row ! 1 \<in> {10}) [[1, 10], [2, 11], [3, 10 :: int]]))"
    by (rule partition_rows_classifies [THEN conjunct2, THEN conjunct1, THEN mp, OF b])
  then have c: "partition_rows (Some ''row_id'') [''value'', ''row_id''] {10}
      [[1, 10], [2, 11], [3, 10 :: int]] [] 0 = Inr ([[2, 11]], 2)"
    by simp
  from a b c show ?thesis by simp
qed

text \<open>
  In general the loop raises as soon as one row is too short to hold a value at the
  position of the dedup column.
\<close>

lemma partition_rows_short_row:
  "index_of column_names col = Inr idx \<Longrightarrow> row \<in> set rows \<Longrightarrow> \<not> idx < length row \<Longrightarrow>
   partition_rows (Some col) column_names existing_keys rows new_rows already_present =
     Inl IndexError"
  by (induction rows arbitrary: new_rows already_present) (auto simp: getitem_def)

text \<open>
  Claim C1. A table with the columns \<open>value\<close>, \<open>row_id\<close> and the rows \<open>[1, 10]\<close>
  and \<open>[2]\<close>: the dedup column is \<open>row_id\<close>, at position 1, and the second row has no
  value there. \<^verbatim>\<open>row[idx]\<close> of line 155 raises \<^verbatim>\<open>IndexError\<close>, which leaves
  \<^verbatim>\<open>sync_table\<close>: the length check of lines 168-174 is never reached, nothing is
  inserted (not even the complete first row), no count is logged, and the driver logs the
  table as an unhandled error. The same read comes before the length check when the short
  row does hold a dedup value: with the columns \<open>row_id\<close>, \<open>value\<close>, the row \<open>[3]\<close>
  and the existing key 3, the row is counted as already present and not as malformed.
\<close>

theorem short_row_aborts_sync:
  "sync_table (demo_stores [(''value'', Some ''REAL''), (''row_id'', Some ''INTEGER'')]
       [[1, 10], [2]] (Inr [])) ''t'' {''t''} init_state =
     (Inl IndexError,
      \<lparr>world = (), logs = [LogEnsuring ''t''],
       trace = [SqliteTableInfo ''t'',
                PgExecute (create_sql ascii_upper ''t'' [(''value'', Some ''REAL''), (''row_id'', Some ''INTEGER'')]),
                PgCommit, SqliteSelectAll ''t'', PgSelectKeys ''row_id'' ''t'']\<rparr>) \<and>
   logs (main_loop (demo_stores [(''value'', Some ''REAL''), (''row_id'', Some ''INTEGER'')]
       [[1, 10], [2]] (Inr [])) {''t''} [''t''] init_state) =
     [LogEnsuring ''t'', LogUnhandled ''t'' IndexError] \<and>
   logs (snd (sync_table (demo_stores [(''row_id'', Some ''INTEGER''), (''value'', Some ''REAL'')]
       [[3]] (Inr [3])) ''t'' {''t''} init_state)) =
     [LogEnsuring ''t'', LogNoNewRows ''t'', LogAlreadyExisted 1 ''t'']"
  by (simp add: sync_table_def demo_stores_def init_state_def ensure_table_def
      get_create_table_query_def run_op_def log_def sync_rows_def select_dedup_col_def
      dedup_candidates_def fetch_existing_keys_def finish_sync_def getitem_def main_loop_body_def
      insert_new_rows_def)

section \<open>Row validator and insert\<close>

lemma validate_rows_result:
  "fst (validate_rows table n i rows valid_rows skipped_rows s) =
     (valid_rows @ map (take n) (filter (\<lambda>row. n \<le> length row) rows),
      skipped_rows + length (filter (\<lambda>row. length row < n) rows))"
  by (induction rows arbitrary: i valid_rows skipped_rows s) auto

lemma validate_rows_state:
  "snd (validate_rows table n i rows valid_rows skipped_rows s) =
     s\<lparr>logs := logs s @ skip_events table n i rows\<rparr>"
  by (induction rows arbitrary: i valid_rows skipped_rows s) (auto simp: log_def)

lemma insert_failed_trace:
  "trace (snd (insert_failed db table valid_rows e s)) = trace s @ [PgRollback]"
  by (simp add: insert_failed_def run_op_def log_def split: prod.splits sum.splits list.splits)

lemma insert_failed_logs:
  "\<exists>ev. logs (snd (insert_failed db table valid_rows e s)) = logs s @ ev"
  by (simp add: insert_failed_def run_op_def log_def split: prod.splits sum.splits list.splits)

lemma insert_valid_rows_empty:
  "insert_valid_rows db table column_names [] s = (Inr (), log (LogNoValidRows table) s)"
  by (simp add: insert_valid_rows_def)

lemma insert_valid_rows_trace:
  "valid_rows \<noteq> [] \<Longrightarrow>
   \<exists>rest. trace (snd (insert_valid_rows db table column_names valid_rows s)) =
     trace s @ PgExecuteMany (insert_query table column_names) valid_rows # rest \<and>
     set rest \<subseteq> {PgCommit, PgRollback}"
  by (auto simp: insert_valid_rows_def insert_failed_trace run_op_def log_def split: prod.splits sum.splits)

lemma insert_new_rows_trace:
  "filter (\<lambda>row. length column_names \<le> length row) new_rows \<noteq> [] \<Longrightarrow>
   \<exists>rest. trace (snd (insert_new_rows db table column_names new_rows s)) =
     trace s @ PgExecuteMany (insert_query table column_names)
       (map (take (length column_names)) (filter (\<lambda>row. length column_names \<le> length row) new_rows)) # rest \<and>
     set rest \<subseteq> {PgCommit, PgRollback}"
proof -
  assume ne: "filter (\<lambda>row. length column_names \<le> length row) new_rows \<noteq> []"
  then have new: "new_rows \<noteq> []" by auto
  obtain valid_rows skipped_rows s1 where
    v: "validate_rows table (length column_names) 0 new_rows [] 0 s = ((valid_rows, skipped_rows), s1)"
    by (metis prod.exhaust)
  from v have vr: "valid_rows = map (take (length column_names)) (filter (\<lambda>row. length column_names \<le> length row) new_rows)"
    using validate_rows_result [of table "length column_names" 0 new_rows "[]" 0 s] by simp
  from v have s1: "s1 = s\<lparr>logs := logs s @ skip_events table (length column_names) 0 new_rows\<rparr>"
    using validate_rows_state [of table "length column_names" 0 new_rows "[]" 0 s] by simp
  from vr ne have vne: "valid_rows \<noteq> []" by simp
  from insert_valid_rows_trace [OF vne, of db table column_names s1]
  obtain rest where r: "trace (snd (insert_valid_rows db table column_names valid_rows s1)) =
     trace s1 @ PgExecuteMany (insert_query table column_names) valid_rows # rest" 
     "set rest \<subseteq> {PgCommit, PgRollback}" by blast
  have "trace (snd (insert_new_rows db table column_names new_rows s)) =
      trace (snd (insert_valid_rows db table column_names valid_rows s1))"
    using new v by (simp add: insert_new_rows_def log_def split: prod.splits sum.splits)
  with r s1 vr show ?thesis by simp
qed

lemma insert_new_rows_none_valid:
  "filter (\<lambda>row. length column_names \<le> length row) new_rows = [] \<Longrightarrow>
   insert_new_rows db table column_names new_rows s =
     (Inr (),
      s\<lparr>logs := logs s @
         (if new_rows = [] then [LogNoNewRows table]
          else skip_events table (length column_names) 0 new_rows @
               [LogNoValidRows table, LogRowsSkipped (length new_rows) table])\<rparr>)"
proof -
  assume e: "filter (\<lambda>row. length column_names \<le> length row) new_rows = []"
  obtain valid_rows skipped_rows s1 where
    v: "validate_rows table (length column_names) 0 new_rows [] 0 s = ((valid_rows, skipped_rows), s1)"
    by (metis prod.exhaust)
  from v e have vr: "valid_rows = []"
    using validate_rows_result [of table "length column_names" 0 new_rows "[]" 0 s] by simp
  have "filter (\<lambda>row. length row < length column_names) new_rows = new_rows"
    using e by (simp add: filter_empty_conv not_le)
  with v have sk: "skipped_rows = length new_rows"
    using validate_rows_result [of table "length column_names" 0 new_rows "[]" 0 s] by simp
  from v have s1: "s1 = s\<lparr>logs := logs s @ skip_events table (length column_names) 0 new_rows\<rparr>"
    using validate_rows_state [of table "length column_names" 0 new_rows "[]" 0 s] by simp
  show ?thesis
    using v vr sk s1 by (simp add: insert_new_rows_def insert_valid_rows_empty log_def)
qed

text \<open>
  Claim C5. With \<open>n\<close> the number of column names, the loop of lines 168-174 keeps, in
  source order, the first \<open>n\<close> values of every new row that has at least \<open>n\<close> values,
  and counts the rows with fewer than \<open>n\<close> values, logging each of them. When some new
  row is valid, the rows passed to \<^verbatim>\<open>executemany\<close> are exactly the kept ones, so a
  short row is never part of the insert and the values beyond the first \<open>n\<close> of a long
  row are dropped.
\<close>

theorem validate_rows_classifies:
  "fst (validate_rows table n i new_rows [] 0 s) =
     (map (take n) (filter (\<lambda>row. n \<le> length row) new_rows),
      length (filter (\<lambda>row. length row < n) new_rows)) \<and>
   snd (validate_rows table n i new_rows [] 0 s) =
     s\<lparr>logs := logs s @ skip_events table n i new_rows\<rparr> \<and>
   (filter (\<lambda>row. length column_names \<le> length row) new_rows \<noteq> [] \<longrightarrow>
      (\<exists>rest. trace (snd (insert_new_rows db table column_names new_rows s)) =
         trace s @ PgExecuteMany (insert_query table column_names)
           (map (take (length column_names))
              (filter (\<lambda>row. length column_names \<le> length row) new_rows)) # rest \<and>
         set rest \<subseteq> {PgCommit, PgRollback}))"
  using validate_rows_result [of table n i new_rows "[]" 0 s]
    validate_rows_state [of table n i new_rows "[]" 0 s]
    insert_new_rows_trace [of column_names new_rows db table s]
  by simp

theorem validate_rows_classifies_witness:
  "filter (\<lambda>row. length [''a'', ''b''] \<le> length row) [[1, 2, 3], [4], [5, 6 :: int]] \<noteq> [] \<and>
   fst (validate_rows ''t'' 2 0 [[1, 2, 3], [4], [5, 6 :: int]] [] 0 init_state) =
     ([[1, 2], [5, 6]], 1) \<and>
   logs (snd (validate_rows ''t'' 2 0 [[1, 2, 3], [4], [5, 6 :: int]] [] 0 init_state)) =
     [LogRowSkipped 1 ''t'' 2 1, LogSkippedData [4]] \<and>
   (\<exists>rest. trace (snd (insert_new_rows (demo_stores [] [] (Inr [])) ''t'' [''a'', ''b'']
        [[1, 2, 3], [4], [5, 6 :: int]] init_state)) =
      PgExecuteMany (insert_query ''t'' [''a'', ''b'']) [[1, 2], [5, 6]] # rest)"
proof -
  have a: "filter (\<lambda>row. length [''a'', ''b''] \<le> length row) [[1, 2, 3], [4], [5, 6 :: int]] \<noteq> []"
    by simp
  note r = validate_rows_classifies [of "''t''" 2 0 "[[1, 2, 3], [4], [5, 6 :: int]]" init_state
      "[''a'', ''b'']" "demo_stores [] [] (Inr [])"]
  from r [THEN conjunct1]
  have b: "fst (validate_rows ''t'' 2 0 [[1, 2, 3], [4], [5, 6 :: int]] [] 0 init_state) =
     ([[1, 2], [5, 6]], 1)" by simp
  from r [THEN conjunct2, THEN conjunct1]
  have c: "logs (snd (validate_rows ''t'' 2 0 [[1, 2, 3], [4], [5, 6 :: int]] [] 0 init_state)) =
     [LogRowSkipped 1 ''t'' 2 1, LogSkippedData [4]]" by (simp add: init_state_def)
  from r [THEN conjunct2, THEN conjunct2, THEN mp, OF a]
  have d: "\<exists>rest. trace (snd (insert_new_rows (demo_stores [] [] (Inr [])) ''t'' [''a'', ''b'']
        [[1, 2, 3], [4], [5, 6 :: int]] init_state)) =
      PgExecuteMany (insert_query ''t'' [''a'', ''b'']) [[1, 2], [5, 6]] # rest"
    by (auto simp: init_state_def)
  from a b c d show ?thesis by (intro conjI)
qed

text \<open>
  Claim C7. When the partition returns and none of the new rows has as many values as
  there are columns, no operation is issued against either store (the stores and the
  list of issued operations are unchanged), no \<open>Inserted\<close> line and no error line is
  logged, and \<^verbatim>\<open>sync_table\<close> returns normally after logging the count of rows already
  present. For a table without rows the log is \<open>No new rows\<close> followed by a count of 0
  rows already present.
\<close>

theorem no_valid_rows_no_insert:
  "(partition_rows dedup_col column_names existing_keys rows [] 0 = Inr (new_rows, already_present) \<and>
    filter (\<lambda>row. length column_names \<le> length row) new_rows = [] \<longrightarrow>
      finish_sync db table column_names rows dedup_col existing_keys s =
        (Inr (),
         s\<lparr>logs := logs s @
            (if new_rows = [] then [LogNoNewRows table]
             else skip_events table (length column_names) 0 new_rows @
                  [LogNoValidRows table, LogRowsSkipped (length new_rows) table]) @
            [LogAlreadyExisted already_present table]\<rparr>)) \<and>
   finish_sync db table column_names [] dedup_col existing_keys s =
     (Inr (), s\<lparr>logs := logs s @ [LogNoNewRows table, LogAlreadyExisted 0 table]\<rparr>) \<and>
   sync_rows db table column_names [] s =
     (Inr (),
      log (LogAlreadyExisted 0 table) (log (LogNoNewRows table)
        (snd (fetch_existing_keys db table (select_dedup_col column_names) s))))"
proof -
  have 1: "finish_sync db table column_names rows dedup_col existing_keys s =
        (Inr (),
         s\<lparr>logs := logs s @
            (if new_rows = [] then [LogNoNewRows table]
             else skip_events table (length column_names) 0 new_rows @
                  [LogNoValidRows table, LogRowsSkipped (length new_rows) table]) @
            [LogAlreadyExisted already_present table]\<rparr>)"
    if p: "partition_rows dedup_col column_names existing_keys rows [] 0 = Inr (new_rows, already_present)"
      and e: "filter (\<lambda>row. length column_names \<le> length row) new_rows = []"
    using p insert_new_rows_none_valid [OF e, of db table s]
    by (simp add: finish_sync_def log_def)
  have 2: "finish_sync db table column_names [] d k s' =
     (Inr (), s'\<lparr>logs := logs s' @ [LogNoNewRows table, LogAlreadyExisted 0 table]\<rparr>)"
    for d k s'
    by (simp add: finish_sync_def insert_new_rows_def log_def)
  have 3: "sync_rows db table column_names [] s =
     (Inr (),
      log (LogAlreadyExisted 0 table) (log (LogNoNewRows table)
        (snd (fetch_existing_keys db table (select_dedup_col column_names) s))))"
    by (simp add: sync_rows_def 2 log_def split: prod.splits)
  from 1 2 3 show ?thesis by blast
qed

theorem no_valid_rows_no_insert_witness:
  "partition_rows None [''a'', ''b''] {} [[1], [2 :: int]] [] 0 = Inr ([[1], [2]], 0) \<and>
   filter (\<lambda>row. length [''a'', ''b''] \<le> length row) [[1], [2 :: int]] = [] \<and>
   finish_sync (demo_stores [] [] (Inr [])) ''t'' [''a'', ''b''] [[1], [2]] None {} init_state =
     (Inr (),
      \<lparr>world = (),
       logs = [LogRowSkipped 0 ''t'' 2 1, LogSkippedData [1], LogRowSkipped 1 ''t'' 2 1,
               LogSkippedData [2], LogNoValidRows ''t'', LogRowsSkipped 2 ''t'',
               LogAlreadyExisted 0 ''t''],
       trace = []\<rparr>)"
proof -
  have a: "partition_rows None [''a'', ''b''] {} [[1], [2 :: int]] [] 0 = Inr ([[1], [2]], 0) \<and>
      filter (\<lambda>row. length [''a'', ''b''] \<le> length row) [[1], [2 :: int]] = []"
    by simp
  from no_valid_rows_no_insert [THEN conjunct1, THEN mp, OF a,
      of "demo_stores [] [] (Inr [])" "''t''" init_state]
  have "finish_sync (demo_stores [] [] (Inr [])) ''t'' [''a'', ''b''] [[1], [2]] None {} init_state =
     (Inr (),
      \<lparr>world = (),
       logs = [LogRowSkipped 0 ''t'' 2 1, LogSkippedData [1], LogRowSkipped 1 ''t'' 2 1,
               LogSkippedData [2], LogNoValidRows ''t'', LogRowsSkipped 2 ''t'',
               LogAlreadyExisted 0 ''t''],
       trace = []\<rparr>)"
    by (simp add: init_state_def)
  with a show ?thesis by simp
qed

section \<open>Existing keys\<close>

text \<open>
  Claim C6. When the query for the existing keys raises, the existing keys are the empty
  set and a warning is logged; \<^verbatim>\<open>sync_table\<close> goes on with the partition and the insert
  as it does for an empty destination, and every row that has a value at the position of
  the dedup column is new.
\<close>

theorem existing_key_failure_degrades:
  "select_keys db col table (world s) = (Inl e, w') \<Longrightarrow>
   fetch_existing_keys db table (Some col) s =
     ({}, log (LogWarnKeys table e) (s\<lparr>world := w', trace := trace s @ [PgSelectKeys col table]\<rparr>)) \<and>
   (select_dedup_col column_names = Some col \<longrightarrow>
      sync_rows db table column_names rows s =
        finish_sync db table column_names rows (Some col) {}
          (log (LogWarnKeys table e) (s\<lparr>world := w', trace := trace s @ [PgSelectKeys col table]\<rparr>)) \<and>
      (\<exists>idx. index_of column_names col = Inr idx \<and>
         ((\<forall>row\<in>set rows. idx < length row) \<longrightarrow>
            partition_rows (Some col) column_names {} rows [] 0 = Inr (rows, 0))))"
proof -
  assume q: "select_keys db col table (world s) = (Inl e, w')"
  then have f: "fetch_existing_keys db table (Some col) s =
     ({}, log (LogWarnKeys table e) (s\<lparr>world := w', trace := trace s @ [PgSelectKeys col table]\<rparr>))"
    by (simp add: fetch_existing_keys_def run_op_def)
  have "sync_rows db table column_names rows s =
        finish_sync db table column_names rows (Some col) {}
          (log (LogWarnKeys table e) (s\<lparr>world := w', trace := trace s @ [PgSelectKeys col table]\<rparr>))"
    if "select_dedup_col column_names = Some col"
    using that f by (simp add: sync_rows_def)
  moreover have "\<exists>idx. index_of column_names col = Inr idx \<and>
         ((\<forall>row\<in>set rows. idx < length row) \<longrightarrow>
            partition_rows (Some col) column_names {} rows [] 0 = Inr (rows, 0))"
    if d: "select_dedup_col column_names = Some col"
  proof -
    from select_dedup_col_index [OF d] obtain idx where i: "index_of column_names col = Inr idx"
      by blast
    have "partition_rows (Some col) column_names {} rows [] 0 = Inr (rows, 0)"
      if "\<forall>row\<in>set rows. idx < length row"
      using partition_rows_keyed [OF i that, of "{}" "[]" 0] by simp
    with i show ?thesis by blast
  qed
  ultimately show ?thesis using f by blast
qed

theorem existing_key_failure_degrades_witness:
  "select_keys (demo_stores [] [] (Inl (StoreError ''type mismatch''))) ''row_id'' ''t''
       (world init_state) = (Inl (StoreError ''type mismatch''), ()) \<and>
   select_dedup_col [''row_id'', ''value''] = Some ''row_id'' \<and>
   index_of [''row_id'', ''value''] ''row_id'' = Inr 0 \<and>
   list_all (\<lambda>row. 0 < length row) [[1, 10], [2, 20 :: int]] \<and>
   partition_rows (Some ''row_id'') [''row_id'', ''value''] {} [[1, 10], [2, 20 :: int]] [] 0 =
     Inr ([[1, 10], [2, 20]], 0) \<and>
   sync_rows (demo_stores [] [] (Inl (StoreError ''type mismatch''))) ''t'' [''row_id'', ''value'']
       [[1, 10], [2, 20]] init_state =
     (Inr (),
      \<lparr>world = (),
       logs = [LogWarnKeys ''t'' (StoreError ''type mismatch''), LogInserted 2 ''t'',
               LogAlreadyExisted 0 ''t''],
       trace = [PgSelectKeys ''row_id'' ''t'',
                PgExecuteMany (insert_query ''t'' [''row_id'', ''value'']) [[1, 10], [2, 20]],
                PgCommit]\<rparr>)"
proof -
  have a: "select_keys (demo_stores [] [] (Inl (StoreError ''type mismatch''))) ''row_id'' ''t''
       (world init_state) = (Inl (StoreError ''type mismatch''), ())"
    by (simp add: demo_stores_def)
  have b: "select_dedup_col [''row_id'', ''value''] = Some ''row_id''"
    by (simp add: select_dedup_col_def dedup_candidates_def)
  have c: "index_of [''row_id'', ''value''] ''row_id'' = Inr 0" by simp
  have d: "\<forall>row\<in>set [[1, 10], [2, 20 :: int]]. 0 < length row" by simp
  note r = existing_key_failure_degrades [OF a, of "[''row_id'', ''value'']" "[[1, 10], [2, 20]]",
      THEN conjunct2, THEN mp, OF b]
  from r [THEN conjunct2] c d
  have e: "partition_rows (Some ''row_id'') [''row_id'', ''value''] {} [[1, 10], [2, 20 :: int]] [] 0 =
     Inr ([[1, 10], [2, 20]], 0)" by auto
  from r [THEN conjunct1]
  have f: "sync_rows (demo_stores [] [] (Inl (StoreError ''type mismatch''))) ''t'' [''row_id'', ''value'']
       [[1, 10], [2, 20]] init_state =
     (Inr (),
      \<lparr>world = (),
       logs = [LogWarnKeys ''t'' (StoreError ''type mismatch''), LogInserted 2 ''t'',
               LogAlreadyExisted 0 ''t''],
       trace = [PgSelectKeys ''row_id'' ''t'',
                PgExecuteMany (insert_query ''t'' [''row_id'', ''value'']) [[1, 10], [2, 20]],
                PgCommit]\<rparr>)"
    by (simp add: finish_sync_def insert_new_rows_def insert_valid_rows_def run_op_def log_def
        demo_stores_def init_state_def getitem_def)
  have d': "list_all (\<lambda>row. 0 < length row) [[1, 10], [2, 20 :: int]]" by simp
  from a b c d' e f show ?thesis by (intro conjI)
qed











section \<open>Tables outside the inclusion set\<close>

text \<open>
  Claim C10. For a table that is not in \<^verbatim>\<open>tables_to_import\<close>, \<^verbatim>\<open>sync_table\<close> logs the
  skip and returns: the state of the stores is unchanged and no operation is issued.
\<close>

theorem sync_table_skips_unselected:
  "table \<notin> tables_to_import \<Longrightarrow>
   sync_table db table tables_to_import s = (Inr (), s\<lparr>logs := logs s @ [LogSkipping table]\<rparr>) \<and>
   world (snd (sync_table db table tables_to_import s)) = world s \<and>
   trace (snd (sync_table db table tables_to_import s)) = trace s"
  by (simp add: sync_table_def log_def)

theorem sync_table_skips_unselected_witness:
  "''u'' \<notin> {''t''} \<and>
   sync_table (demo_stores [(''row_id'', Some ''INTEGER'')] [[1]] (Inr [])) ''u'' {''t''} init_state =
     (Inr (), \<lparr>world = (), logs = [LogSkipping ''u''], trace = []\<rparr>)"
proof -
  have a: "''u'' \<notin> {''t''}" by simp
  from sync_table_skips_unselected [OF a, of "demo_stores [(''row_id'', Some ''INTEGER'')] [[1]] (Inr [])" init_state]
  show ?thesis by (simp add: init_state_def)
qed

section \<open>Sync driver: fault isolation\<close>

lemma insert_failed_logs_from:
  "logs s1 = logs s \<Longrightarrow> \<exists>ev. logs (snd (insert_failed db table valid_rows e s1)) = logs s @ ev"
  using insert_failed_logs [of db table valid_rows e s1] by simp

lemma insert_valid_rows_logs:
  "\<exists>ev. logs (snd (insert_valid_rows db table column_names valid_rows s)) = logs s @ ev"
  by (auto simp: insert_valid_rows_def run_op_def log_def split: prod.splits sum.splits
      intro!: insert_failed_logs_from)

lemma validate_rows_logs:
  "\<exists>ev. logs (snd (validate_rows table n i rows valid_rows skipped_rows s)) = logs s @ ev"
  by (simp add: validate_rows_state)

lemma insert_new_rows_logs:
  "\<exists>ev. logs (snd (insert_new_rows db table column_names new_rows s)) = logs s @ ev"
proof (cases "new_rows = []")
  case True
  then show ?thesis by (simp add: insert_new_rows_def log_def)
next
  case False
  obtain valid_rows skipped_rows s1 where
    v: "validate_rows table (length column_names) 0 new_rows [] 0 s = ((valid_rows, skipped_rows), s1)"
    by (metis prod.exhaust)
  from v obtain ev1 where e1: "logs s1 = logs s @ ev1"
    using validate_rows_logs [of table "length column_names" 0 new_rows "[]" 0 s] by auto
  obtain ev2 where e2:
    "logs (snd (insert_valid_rows db table column_names valid_rows s1)) = logs s1 @ ev2"
    using insert_valid_rows_logs by blast
  show ?thesis
    using False v e1 e2 by (auto simp: insert_new_rows_def log_def split: prod.splits sum.splits)
qed

lemma finish_sync_logs:
  "\<exists>ev. logs (snd (finish_sync db table column_names rows dedup_col existing_keys s)) = logs s @ ev"
proof (cases "partition_rows dedup_col column_names existing_keys rows [] 0")
  case (Inl e)
  then show ?thesis by (simp add: finish_sync_def)
next
  case (Inr p)
  obtain ev where "logs (snd (insert_new_rows db table column_names (fst p) s)) = logs s @ ev"
    using insert_new_rows_logs by blast
  then show ?thesis
    using Inr by (auto simp: finish_sync_def log_def split: prod.splits sum.splits)
qed

lemma fetch_existing_keys_logs:
  "\<exists>ev. logs (snd (fetch_existing_keys db table dedup_col s)) = logs s @ ev"
  by (auto simp: fetch_existing_keys_def run_op_def log_def split: option.splits prod.splits sum.splits)

lemma sync_rows_logs:
  "\<exists>ev. logs (snd (sync_rows db table column_names rows s)) = logs s @ ev"
proof -
  obtain ks s1 where f: "fetch_existing_keys db table (select_dedup_col column_names) s = (ks, s1)"
    by (metis prod.exhaust)
  from f obtain ev1 where e1: "logs s1 = logs s @ ev1"
    using fetch_existing_keys_logs [of db table "select_dedup_col column_names" s] by auto
  obtain ev2 where "logs (snd (finish_sync db table column_names rows
      (select_dedup_col column_names) ks s1)) = logs s1 @ ev2"
    using finish_sync_logs by blast
  with f e1 show ?thesis by (simp add: sync_rows_def)
qed

lemma ensure_table_logs:
  "ensure_table db table s = (r, s1) \<Longrightarrow>
     (\<exists>e. r = Inl e \<and> (logs s1 = logs s \<or> logs s1 = logs s @ [LogEnsuring table])) \<or>
     (\<exists>names. r = Inr names \<and> logs s1 = logs s @ [LogEnsuring table])"
  by (auto simp: ensure_table_def get_create_table_query_def run_op_def log_def
      split: prod.splits sum.splits)

lemma sync_table_visits:
  "\<exists>ev. logs (snd (sync_table db table tables_to_import s)) = logs s @ ev \<and>
     (LogSkipping table \<in> set ev \<or> LogEnsuring table \<in> set ev \<or>
      (\<exists>e. LogErrorCreating table e \<in> set ev))"
proof (cases "table \<in> tables_to_import")
  case False
  then show ?thesis by (simp add: sync_table_def log_def)
next
  case True
  obtain r s1 where en: "ensure_table db table s = (r, s1)" by (metis prod.exhaust)
  show ?thesis
  proof (cases r)
    case (Inl e)
    with en True have "logs (snd (sync_table db table tables_to_import s)) =
        logs s1 @ [LogErrorCreating table e]"
      by (simp add: sync_table_def log_def)
    moreover from ensure_table_logs [OF en] Inl
    have "logs s1 = logs s \<or> logs s1 = logs s @ [LogEnsuring table]" by auto
    ultimately show ?thesis by auto
  next
    case (Inr names)
    from ensure_table_logs [OF en] Inr have l1: "logs s1 = logs s @ [LogEnsuring table]" by auto
    obtain r2 w2 where sel: "select_all db table (world s1) = (r2, w2)" by (metis prod.exhaust)
    show ?thesis
    proof (cases r2)
      case (Inl e)
      with en True Inr sel l1 show ?thesis
        by (simp add: sync_table_def run_op_def log_def)
    next
      case (Inr rows)
      obtain ev where "logs (snd (sync_rows db table names rows
          (s1\<lparr>world := w2, trace := trace s1 @ [SqliteSelectAll table]\<rparr>))) =
          logs (s1\<lparr>world := w2, trace := trace s1 @ [SqliteSelectAll table]\<rparr>) @ ev"
        using sync_rows_logs by blast
      with en True \<open>r = Inr names\<close> Inr sel l1 show ?thesis
        by (simp add: sync_table_def run_op_def)
    qed
  qed
qed

lemma main_loop_body_visits:
  "\<exists>ev. logs (main_loop_body db tables_to_import table s) = logs s @ ev \<and>
     (LogSkipping table \<in> set ev \<or> LogEnsuring table \<in> set ev \<or>
      (\<exists>e. LogErrorCreating table e \<in> set ev))"
proof -
  obtain ev where ev: "logs (snd (sync_table db table tables_to_import s)) = logs s @ ev"
    "LogSkipping table \<in> set ev \<or> LogEnsuring table \<in> set ev \<or>
      (\<exists>e. LogErrorCreating table e \<in> set ev)"
    using sync_table_visits by blast
  obtain r s1 where st: "sync_table db table tables_to_import s = (r, s1)" by (metis prod.exhaust)
  show ?thesis
  proof (cases r)
    case (Inl e)
    with st ev have "logs (main_loop_body db tables_to_import table s) = logs s @ (ev @ [LogUnhandled table e])"
      by (simp add: main_loop_body_def log_def)
    with ev(2) show ?thesis by (intro exI [of _ "ev @ [LogUnhandled table e]"]) auto
  next
    case (Inr u)
    with st ev have "logs (main_loop_body db tables_to_import table s) = logs s @ ev"
      by (simp add: main_loop_body_def)
    with ev(2) show ?thesis by blast
  qed
qed

lemma main_loop_append:
  "main_loop db tti (xs @ ys) s = main_loop db tti ys (main_loop db tti xs s)"
  by (induction xs arbitrary: s) auto

lemma main_loop_visits:
  "\<exists>ev. logs (main_loop db tti tables s) = logs s @ ev \<and>
     (\<forall>t\<in>set tables. LogSkipping t \<in> set ev \<or> LogEnsuring t \<in> set ev \<or>
        (\<exists>e. LogErrorCreating t e \<in> set ev))"
proof (induction tables arbitrary: s)
  case Nil
  then show ?case by simp
next
  case (Cons t ts)
  obtain ev1 where e1: "logs (main_loop_body db tti t s) = logs s @ ev1"
    "LogSkipping t \<in> set ev1 \<or> LogEnsuring t \<in> set ev1 \<or> (\<exists>e. LogErrorCreating t e \<in> set ev1)"
    using main_loop_body_visits by blast
  obtain ev2 where e2: "logs (main_loop db tti ts (main_loop_body db tti t s)) =
      logs (main_loop_body db tti t s) @ ev2"
    "\<forall>t\<in>set ts. LogSkipping t \<in> set ev2 \<or> LogEnsuring t \<in> set ev2 \<or>
        (\<exists>e. LogErrorCreating t e \<in> set ev2)"
    using Cons.IH by blast
  have "logs (main_loop db tti (t # ts) s) = logs s @ (ev1 @ ev2)"
    using e1(1) e2(1) by simp
  moreover have "\<forall>u\<in>set (t # ts). LogSkipping u \<in> set (ev1 @ ev2) \<or> LogEnsuring u \<in> set (ev1 @ ev2) \<or>
        (\<exists>e. LogErrorCreating u e \<in> set (ev1 @ ev2))"
    using e1(2) e2(2) by auto
  ultimately show ?case by blast
qed

text \<open>What \<^verbatim>\<open>sync_table\<close> returns, does to the stores, logs and issues depends on the state
  of the stores alone, not on what was logged or issued before.\<close>

lemma carried_pair [simp]: "carried l tr (r, s) = (r, prepend l tr s)"
  by (simp add: carried_def)

lemma world_prepend [simp]: "world (prepend l tr s) = world s"
  by (simp add: prepend_def)

lemma log_prepend [simp]: "log e (prepend l tr s) = prepend l tr (log e s)"
  by (simp add: log_def prepend_def)

lemma run_op_prepend [simp]: "run_op opn f (prepend l tr s) = carried l tr (run_op opn f s)"
  by (simp add: run_op_def prepend_def split: prod.splits)

lemma get_create_table_query_prepend [simp]:
  "get_create_table_query db table (prepend l tr s) = carried l tr (get_create_table_query db table s)"
  by (cases "run_op (SqliteTableInfo table) (table_info db table) s")
    (simp add: get_create_table_query_def split: sum.splits)

lemma ensure_table_prepend [simp]:
  "ensure_table db table (prepend l tr s) = carried l tr (ensure_table db table s)"
proof (cases "get_create_table_query db table s")
  case (Pair r s1)
  show ?thesis
  proof (cases r)
    case (Inl e)
    with Pair show ?thesis by (simp add: ensure_table_def)
  next
    case (Inr q)
    obtain r2 s2 where x: "run_op (PgExecute (fst q)) (pg_execute db (fst q)) (log (LogEnsuring table) s1) = (r2, s2)"
      by (metis prod.exhaust)
    obtain r3 s3 where c: "run_op PgCommit (pg_commit db) s2 = (r3, s3)"
      by (metis prod.exhaust)
    from Pair Inr x c show ?thesis
      by (cases q) (simp add: ensure_table_def split: sum.splits)
  qed
qed

lemma fetch_existing_keys_prepend [simp]:
  "fetch_existing_keys db table dedup_col (prepend l tr s) =
     carried l tr (fetch_existing_keys db table dedup_col s)"
proof (cases dedup_col)
  case None
  then show ?thesis by (simp add: fetch_existing_keys_def)
next
  case (Some col)
  then show ?thesis
    by (cases "run_op (PgSelectKeys col table) (select_keys db col table) s")
      (simp add: fetch_existing_keys_def split: sum.splits)
qed

lemma validate_rows_prepend [simp]:
  "validate_rows table n i rows valid_rows skipped_rows (prepend l tr s) =
     carried l tr (validate_rows table n i rows valid_rows skipped_rows s)"
  by (induction rows arbitrary: i valid_rows skipped_rows s) simp_all

lemma insert_failed_prepend [simp]:
  "insert_failed db table valid_rows e (prepend l tr s) =
     carried l tr (insert_failed db table valid_rows e s)"
  by (cases "run_op PgRollback (pg_rollback db) s")
    (simp add: insert_failed_def split: sum.splits list.splits)

lemma insert_valid_rows_prepend [simp]:
  "insert_valid_rows db table column_names valid_rows (prepend l tr s) =
     carried l tr (insert_valid_rows db table column_names valid_rows s)"
proof (cases "valid_rows = []")
  case True
  then show ?thesis by (simp add: insert_valid_rows_def)
next
  case False
  obtain r1 s1 where x: "run_op (PgExecuteMany (insert_query table column_names) valid_rows)
      (pg_executemany db (insert_query table column_names) valid_rows) s = (r1, s1)"
    by (metis prod.exhaust)
  obtain r2 s2 where c: "run_op PgCommit (pg_commit db) s1 = (r2, s2)"
    by (metis prod.exhaust)
  from False x c show ?thesis
    by (simp add: insert_valid_rows_def split: sum.splits)
qed

lemma insert_new_rows_prepend [simp]:
  "insert_new_rows db table column_names new_rows (prepend l tr s) =
     carried l tr (insert_new_rows db table column_names new_rows s)"
proof (cases "new_rows = []")
  case True
  then show ?thesis by (simp add: insert_new_rows_def)
next
  case False
  obtain valid_rows skipped_rows s1 where
    v: "validate_rows table (length column_names) 0 new_rows [] 0 s = ((valid_rows, skipped_rows), s1)"
    by (metis prod.exhaust)
  obtain r2 s2 where i: "insert_valid_rows db table column_names valid_rows s1 = (r2, s2)"
    by (metis prod.exhaust)
  from False v i show ?thesis
    by (simp add: insert_new_rows_def split: sum.splits)
qed

lemma finish_sync_prepend [simp]:
  "finish_sync db table column_names rows dedup_col existing_keys (prepend l tr s) =
     carried l tr (finish_sync db table column_names rows dedup_col existing_keys s)"
proof (cases "partition_rows dedup_col column_names existing_keys rows [] 0")
  case (Inl e)
  then show ?thesis by (simp add: finish_sync_def)
next
  case (Inr p)
  obtain r1 s1 where i: "insert_new_rows db table column_names (fst p) s = (r1, s1)"
    by (metis prod.exhaust)
  from Inr i show ?thesis
    by (cases p) (simp add: finish_sync_def split: sum.splits)
qed

lemma sync_rows_prepend [simp]:
  "sync_rows db table column_names rows (prepend l tr s) =
     carried l tr (sync_rows db table column_names rows s)"
  by (cases "fetch_existing_keys db table (select_dedup_col column_names) s")
    (simp add: sync_rows_def)

lemma sync_table_prepend:
  "sync_table db table tables_to_import (prepend l tr s) =
     carried l tr (sync_table db table tables_to_import s)"
proof (cases "table \<in> tables_to_import")
  case False
  then show ?thesis by (simp add: sync_table_def)
next
  case True
  obtain r1 s1 where e: "ensure_table db table s = (r1, s1)" by (metis prod.exhaust)
  obtain r2 s2 where f: "run_op (SqliteSelectAll table) (select_all db table) s1 = (r2, s2)"
    by (metis prod.exhaust)
  from True e f show ?thesis
    by (simp add: sync_table_def split: sum.splits)
qed

text \<open>
  The loop of \<^verbatim>\<open>main\<close> returns a state for every list of tables and every behaviour
  of the stores. An exception that leaves \<^verbatim>\<open>sync_table\<close> is logged as unhandled, and
  the tables after it are synchronised from the state it left, as they are after a table
  that succeeded. Every table of the list gets its own first log line: the skip, the
  creation of its destination table, or the failure of that creation. What the
  synchronisation of a table returns, logs and issues does not depend on what was logged
  and issued for the tables before it: the state of the stores is all that passes from
  one table to the next.
\<close>

theorem main_loop_continues:
  "main_loop db tables_to_import (before @ table # after) s =
     main_loop db tables_to_import after
       (main_loop_body db tables_to_import table (main_loop db tables_to_import before s)) \<and>
   (fst (sync_table db table tables_to_import s0) = Inl e \<longrightarrow>
      main_loop_body db tables_to_import table s0 =
        log (LogUnhandled table e) (snd (sync_table db table tables_to_import s0))) \<and>
   (\<exists>ev. logs (main_loop db tables_to_import tables s) = logs s @ ev \<and>
      (\<forall>t\<in>set tables. LogSkipping t \<in> set ev \<or> LogEnsuring t \<in> set ev \<or>
         (\<exists>e. LogErrorCreating t e \<in> set ev))) \<and>
   sync_table db table tables_to_import (prepend l tr s) =
     (fst (sync_table db table tables_to_import s),
      prepend l tr (snd (sync_table db table tables_to_import s)))"
proof -
  have 1: "main_loop db tables_to_import (before @ table # after) s =
     main_loop db tables_to_import after
       (main_loop_body db tables_to_import table (main_loop db tables_to_import before s))"
    by (simp add: main_loop_append)
  have 2: "main_loop_body db tables_to_import table s0 =
        log (LogUnhandled table e) (snd (sync_table db table tables_to_import s0))"
    if "fst (sync_table db table tables_to_import s0) = Inl e"
    using that by (cases "sync_table db table tables_to_import s0") (simp add: main_loop_body_def)
  have 4: "sync_table db table tables_to_import (prepend l tr s) =
     (fst (sync_table db table tables_to_import s),
      prepend l tr (snd (sync_table db table tables_to_import s)))"
    by (simp add: sync_table_prepend carried_def)
  from 1 2 4 main_loop_visits [of db tables_to_import tables s] show ?thesis by blast
qed

theorem main_loop_continues_example:
  "fst (sync_table (demo_stores [(''value'', Some ''REAL''), (''row_id'', Some ''INTEGER'')]
       [[1, 10], [2]] (Inr [])) ''t'' {''t'', ''v''} init_state) = Inl IndexError \<and>
   logs (main_loop (demo_stores [(''value'', Some ''REAL''), (''row_id'', Some ''INTEGER'')]
       [[1, 10], [2]] (Inr [])) {''t'', ''v''} ([] @ ''t'' # [''u'']) init_state) =
     [LogEnsuring ''t'', LogUnhandled ''t'' IndexError, LogSkipping ''u''] \<and>
   ''u'' \<in> set [''t'', ''u''] \<and>
   (\<exists>ev. logs (main_loop (demo_stores [(''value'', Some ''REAL''), (''row_id'', Some ''INTEGER'')]
       [[1, 10], [2]] (Inr [])) {''t'', ''v''} [''t'', ''u''] init_state) = logs init_state @ ev \<and>
      (LogSkipping ''u'' \<in> set ev \<or> LogEnsuring ''u'' \<in> set ev \<or>
         (\<exists>e. LogErrorCreating ''u'' e \<in> set ev)))"
proof -
  let ?db = "demo_stores [(''value'', Some ''REAL''), (''row_id'', Some ''INTEGER'')]
       [[1, 10], [2]] (Inr [])"
  have a: "sync_table ?db ''t'' {''t'', ''v''} init_state =
     (Inl IndexError,
      \<lparr>world = (), logs = [LogEnsuring ''t''],
       trace = [SqliteTableInfo ''t'',
                PgExecute (create_sql ascii_upper ''t'' [(''value'', Some ''REAL''), (''row_id'', Some ''INTEGER'')]),
                PgCommit, SqliteSelectAll ''t'', PgSelectKeys ''row_id'' ''t'']\<rparr>)"
    by (simp add: sync_table_def demo_stores_def init_state_def ensure_table_def
      get_create_table_query_def run_op_def log_def sync_rows_def select_dedup_col_def
      dedup_candidates_def fetch_existing_keys_def finish_sync_def getitem_def)
  then have b: "fst (sync_table ?db ''t'' {''t'', ''v''} init_state) = Inl IndexError" by simp
  note r = main_loop_continues [of ?db "{''t'', ''v''}" "[]" "''t''" "[''u'']" init_state
      init_state IndexError "[''t'', ''u'']" "[]" "[]"]
  from r [THEN conjunct2, THEN conjunct1, THEN mp, OF b] a
  have g: "main_loop_body ?db {''t'', ''v''} ''t'' init_state =
      \<lparr>world = (), logs = [LogEnsuring ''t'', LogUnhandled ''t'' IndexError],
       trace = [SqliteTableInfo ''t'',
                PgExecute (create_sql ascii_upper ''t'' [(''value'', Some ''REAL''), (''row_id'', Some ''INTEGER'')]),
                PgCommit, SqliteSelectAll ''t'', PgSelectKeys ''row_id'' ''t'']\<rparr>"
    by (simp add: log_def)
  from r [THEN conjunct1] g
  have c: "logs (main_loop ?db {''t'', ''v''} ([] @ ''t'' # [''u'']) init_state) =
     [LogEnsuring ''t'', LogUnhandled ''t'' IndexError, LogSkipping ''u'']"
    by (simp add: main_loop_body_def sync_table_def log_def)
  have d: "''u'' \<in> set [''t'', ''u'']" by simp
  from r [THEN conjunct2, THEN conjunct2, THEN conjunct1] d
  have e: "\<exists>ev. logs (main_loop ?db {''t'', ''v''} [''t'', ''u''] init_state) = logs init_state @ ev \<and>
      (LogSkipping ''u'' \<in> set ev \<or> LogEnsuring ''u'' \<in> set ev \<or>
         (\<exists>e. LogErrorCreating ''u'' e \<in> set ev))"
    by blast
  from b c d e show ?thesis by (intro conjI)
qed

text \<open>
  Claim C8. With the destination \<open>pg_like_stores\<close>, table \<open>b\<close> alone is synchronised: its row is
  inserted. After table \<open>a\<close> it is not: the handler of lines 120-122 logs the failed
  creation of \<open>a\<close>'s table and returns without a rollback (the handler of a failed
  insert, line 182, does roll back), the transaction stays aborted, and the creation of
  \<open>b\<close>'s table is rejected. The run goes on to its end, but the failure of \<open>a\<close> has
  changed the outcome of \<open>b\<close>: no row of \<open>b\<close> is read or inserted.
\<close>

theorem failed_create_breaks_next_table:
  "logs (main_loop pg_like_stores {''a'', ''b''} [''b''] pg_like_init) =
     [LogEnsuring ''b'', LogInserted 1 ''b'', LogAlreadyExisted 0 ''b''] \<and>
   logs (main_loop pg_like_stores {''a'', ''b''} [''a'', ''b''] pg_like_init) =
     [LogEnsuring ''a'',
      LogErrorCreating ''a'' (StoreError ''column name xmin conflicts with a system column name''),
      LogEnsuring ''b'',
      LogErrorCreating ''b'' (StoreError ''current transaction is aborted'')] \<and>
   trace (main_loop pg_like_stores {''a'', ''b''} [''a'', ''b''] pg_like_init) =
     [SqliteTableInfo ''a'',
      PgExecute (create_sql ascii_upper ''a'' [(''xmin'', Some ''INTEGER'')]),
      SqliteTableInfo ''b'',
      PgExecute (create_sql ascii_upper ''b'' [(''row_id'', Some ''INTEGER'')])]"
proof -
  have q: "creates_table ''a'' (create_sql ascii_upper ''a'' cols)"
    "\<not> creates_table ''a'' (create_sql ascii_upper ''b'' cols)" for cols
    by (simp_all add: creates_table_def create_sql_def quoted_def startswith_def)
  show ?thesis
    by (simp add: q main_loop_body_def sync_table_def pg_like_stores_def pg_like_init_def
        ensure_table_def get_create_table_query_def run_op_def log_def sync_rows_def
        select_dedup_col_def dedup_candidates_def fetch_existing_keys_def finish_sync_def
        getitem_def insert_new_rows_def insert_valid_rows_def)
qed

end
